theory Spec2Isabelle
  imports Main "HOL-Library.Char_ord" "HOL-Library.List_Lexorder"
begin

section \<open>Characters as Python's \<open>re\<close> module classifies them\<close>

text \<open>
  The detector \<open>mutable_sql_detector.py\<close> is three functions over one \<open>str\<close>, each a
  handful of calls to Python's \<open>re\<close> module on fixed patterns. A \<open>str\<close> is modelled as a
  \<open>string\<close>, each \<open>char\<close> standing for the code point of the same number: the model
  covers the inputs whose code points are below 256. On that range the classes below are
  the ones \<open>re\<close> uses for a \<open>str\<close> pattern (Unicode matching).
\<close>

definition is_space :: "char \<Rightarrow> bool" where
  \<comment> \<open>\<open>\s\<close>: tab, LF, VT, FF, CR, the separators 0x1C..0x1F, space, NEL (0x85), NBSP (0xA0)\<close>
  "is_space c =
     (let n = (of_char c :: nat)
      in (9 \<le> n \<and> n \<le> 13) \<or> (28 \<le> n \<and> n \<le> 32) \<or> n = 133 \<or> n = 160)"

definition is_digit :: "char \<Rightarrow> bool" where
  \<comment> \<open>\<open>\d\<close>: the decimal digits\<close>
  "is_digit c = (let n = (of_char c :: nat) in 48 \<le> n \<and> n \<le> 57)"

definition is_word :: "char \<Rightarrow> bool" where
  \<comment> \<open>\<open>\w\<close>: alphanumeric (\<open>str.isalnum\<close>) or underscore\<close>
  "is_word c =
     (let n = (of_char c :: nat)
      in (48 \<le> n \<and> n \<le> 57) \<or> (65 \<le> n \<and> n \<le> 90) \<or> n = 95 \<or> (97 \<le> n \<and> n \<le> 122)
         \<or> n = 170 \<or> n = 178 \<or> n = 179 \<or> n = 181 \<or> n = 185 \<or> n = 186
         \<or> (188 \<le> n \<and> n \<le> 190) \<or> (192 \<le> n \<and> n \<le> 214)
         \<or> (216 \<le> n \<and> n \<le> 246) \<or> (248 \<le> n \<and> n \<le> 255))"

definition lower_chr :: "char \<Rightarrow> char" where
  \<comment> \<open>the lower-case mapping that case-insensitive matching compares through\<close>
  "lower_chr c =
     (let n = (of_char c :: nat)
      in if (65 \<le> n \<and> n \<le> 90) \<or> (192 \<le> n \<and> n \<le> 222 \<and> n \<noteq> 215)
         then char_of (n + 32) else c)"

definition upper_chr :: "char \<Rightarrow> char" where
  \<comment> \<open>\<open>str.upper\<close> on one character; the detector applies it only to text matched by
      \<open>MUTATING_PATTERN\<close>, which is made of ASCII letters and spaces\<close>
  "upper_chr c =
     (let n = (of_char c :: nat)
      in if 97 \<le> n \<and> n \<le> 122 then char_of (n - 32) else c)"

definition upper :: "string \<Rightarrow> string" where
  "upper s = map upper_chr s"

section \<open>The fragment of regular expressions the patterns use\<close>

text \<open>
  Every repetition in the source's patterns is over a single-character item
  (\<open>\s*\<close>, \<open>\s+\<close>, \<open>\d+\<close>, \<open>\w+\<close>, \<open>[^']+\<close>, \<open>.*\<close>, \<open>.*?\<close>), so repetition is over
  a character class. Groups only bracket; the flags \<open>(?i)\<close>/\<open>IGNORECASE\<close> and \<open>DOTALL\<close>
  are resolved in the translation: a literal under \<open>(?i)\<close> is \<open>LitI\<close>, a dot under
  \<open>DOTALL\<close> is \<open>DotAll\<close>; \<open>VERBOSE\<close> drops the layout of the pattern.
\<close>

datatype cclass =
    Lit char       \<comment> \<open>a literal character\<close>
  | LitI char      \<comment> \<open>a literal character, ignoring case\<close>
  | Dot            \<comment> \<open>\<open>.\<close>: anything but a newline\<close>
  | DotAll         \<comment> \<open>\<open>.\<close> under \<open>DOTALL\<close>: anything\<close>
  | Space          \<comment> \<open>\<open>\s\<close>\<close>
  | NonSpace       \<comment> \<open>\<open>\S\<close>\<close>
  | Digit          \<comment> \<open>\<open>\d\<close>\<close>
  | Word           \<comment> \<open>\<open>\w\<close>\<close>
  | NotQuote       \<comment> \<open>\<open>[^']\<close>\<close>

fun cmatch :: "cclass \<Rightarrow> char \<Rightarrow> bool" where
  "cmatch (Lit a) c = (c = a)"
| "cmatch (LitI a) c = (lower_chr c = lower_chr a)"
| "cmatch Dot c = (c \<noteq> CHR 0x0A)"
| "cmatch DotAll c = True"
| "cmatch Space c = is_space c"
| "cmatch NonSpace c = (\<not> is_space c)"
| "cmatch Digit c = is_digit c"
| "cmatch Word c = is_word c"
| "cmatch NotQuote c = (c \<noteq> CHR 0x27)"

datatype regex =
    Eps                  \<comment> \<open>the empty pattern\<close>
  | Never                \<comment> \<open>an alternation of nothing\<close>
  | Chr cclass           \<comment> \<open>one character\<close>
  | Star cclass          \<comment> \<open>\<open>x*\<close>, greedy\<close>
  | LazyStar cclass      \<comment> \<open>\<open>x*?\<close>\<close>
  | Plus cclass          \<comment> \<open>\<open>x+\<close>, greedy\<close>
  | Seq regex regex
  | Alt regex regex      \<comment> \<open>\<open>a|b\<close>, the left one tried first\<close>
  | Opt regex            \<comment> \<open>\<open>(a)?\<close>, greedy\<close>
  | Bol                  \<comment> \<open>\<open>^\<close>\<close>
  | Eol                  \<comment> \<open>\<open>$\<close>\<close>
  | Wordb                \<comment> \<open>\<open>\b\<close>\<close>
  | NegLook regex        \<comment> \<open>\<open>(?!a)\<close>\<close>
  | Look regex           \<comment> \<open>\<open>(?=a)\<close>\<close>

text \<open>
  A position in the subject is the character just before it (\<open>None\<close> at the start of the
  string) and the text still ahead.
\<close>

type_synonym pos = "char option \<times> string"

definition word_before :: "char option \<Rightarrow> bool" where
  "word_before p = (case p of None \<Rightarrow> False | Some c \<Rightarrow> is_word c)"

definition word_after :: "string \<Rightarrow> bool" where
  "word_after xs = (case xs of [] \<Rightarrow> False | c # _ \<Rightarrow> is_word c)"

definition at_boundary :: "pos \<Rightarrow> bool" where
  \<comment> \<open>\<open>\b\<close>: a word character on exactly one side\<close>
  "at_boundary s = (word_before (fst s) \<noteq> word_after (snd s))"

definition at_end :: "string \<Rightarrow> bool" where
  \<comment> \<open>\<open>$\<close> without \<open>MULTILINE\<close>: the end of the string, or just before a final newline\<close>
  "at_end xs = (xs = [] \<or> xs = [CHR 0x0A])"

fun greedy :: "cclass \<Rightarrow> char option \<Rightarrow> string \<Rightarrow> pos list" where
  "greedy c p [] = [(p, [])]"
| "greedy c p (x # xs) = (if cmatch c x then greedy c (Some x) xs else []) @ [(p, x # xs)]"

fun lazy :: "cclass \<Rightarrow> char option \<Rightarrow> string \<Rightarrow> pos list" where
  "lazy c p [] = [(p, [])]"
| "lazy c p (x # xs) = (p, x # xs) # (if cmatch c x then lazy c (Some x) xs else [])"

text \<open>
  The backtracking matcher: \<open>run r s\<close> lists the positions at which a match of \<open>r\<close>
  started at \<open>s\<close> can end, in the order in which backtracking reaches them. The first
  one is the match \<open>re\<close> reports; no match is the empty list.
\<close>

fun run :: "regex \<Rightarrow> pos \<Rightarrow> pos list" where
  "run Eps s = [s]"
| "run Never s = []"
| "run (Chr c) (p, []) = []"
| "run (Chr c) (p, x # xs) = (if cmatch c x then [(Some x, xs)] else [])"
| "run (Star c) (p, xs) = greedy c p xs"
| "run (LazyStar c) (p, xs) = lazy c p xs"
| "run (Plus c) (p, []) = []"
| "run (Plus c) (p, x # xs) = (if cmatch c x then greedy c (Some x) xs else [])"
| "run (Seq a b) s = concat (map (run b) (run a s))"
| "run (Alt a b) s = run a s @ run b s"
| "run (Opt a) s = run a s @ [s]"
| "run Bol (p, xs) = (if p = None then [(p, xs)] else [])"
| "run Eol (p, xs) = (if at_end xs then [(p, xs)] else [])"
| "run Wordb s = (if at_boundary s then [s] else [])"
| "run (NegLook a) s = (if run a s = [] then [s] else [])"
| "run (Look a) s = (if run a s = [] then [] else [s])"

fun search_from :: "regex \<Rightarrow> char option \<Rightarrow> string \<Rightarrow> bool" where
  "search_from r p [] = (run r (p, []) \<noteq> [])"
| "search_from r p (x # xs) = (run r (p, x # xs) \<noteq> [] \<or> search_from r (Some x) xs)"

definition search :: "regex \<Rightarrow> string \<Rightarrow> bool" where
  \<comment> \<open>\<open>bool(re.search(r, sql))\<close>: a match starts somewhere in the string\<close>
  "search r sql = search_from r None sql"

text \<open>
  \<open>findall\<close>: the matches from left to right, each search resuming where the last match
  ended. The list holds the text of each match. (An empty match makes the scan move one
  character on; neither pattern given to \<open>findall\<close> can match the empty string.)
\<close>

function findall_from :: "regex \<Rightarrow> char option \<Rightarrow> string \<Rightarrow> string list" where
  "findall_from r p [] = (if run r (p, []) = [] then [] else [[]])"
| "findall_from r p (x # xs) =
     (case run r (p, x # xs) of
        [] \<Rightarrow> findall_from r (Some x) xs
      | (q, rest) # _ \<Rightarrow>
          if length rest < length (x # xs)
          then take (length (x # xs) - length rest) (x # xs) # findall_from r q rest
          else [] # findall_from r (Some x) xs)"
  by pat_completeness auto
termination
  by (relation "measure (\<lambda>(r, p, xs). length xs)") auto

definition findall :: "regex \<Rightarrow> string \<Rightarrow> string list" where
  "findall r sql = findall_from r None sql"

subsection \<open>Building patterns\<close>

fun seqs :: "regex list \<Rightarrow> regex" where
  "seqs [] = Eps"
| "seqs (r # rs) = Seq r (seqs rs)"

fun alts :: "regex list \<Rightarrow> regex" where
  "alts [] = Never"
| "alts [r] = r"
| "alts (r # rs) = Alt r (alts rs)"

definition lit :: "string \<Rightarrow> regex" where
  \<comment> \<open>a literal string in a case-sensitive pattern\<close>
  "lit s = seqs (map (\<lambda>c. Chr (Lit c)) s)"

definition kw :: "string \<Rightarrow> regex" where
  \<comment> \<open>a literal string in a case-insensitive pattern\<close>
  "kw s = seqs (map (\<lambda>c. Chr (LitI c)) s)"

definition ws0 :: regex where "ws0 = Star Space"    \<comment> \<open>\<open>\s*\<close>\<close>
definition ws1 :: regex where "ws1 = Plus Space"    \<comment> \<open>\<open>\s+\<close>\<close>

section \<open>The tables of the detector\<close>

definition MUTATING_KEYWORDS :: "string list" where
  \<comment> \<open>the keyword set, listed in the order of the source\<close>
  "MUTATING_KEYWORDS =
     [''INSERT'', ''UPDATE'', ''DELETE'', ''REPLACE'', ''TRUNCATE'', ''CREATE'', ''DROP'',
      ''ALTER'', ''RENAME'', ''GRANT'', ''REVOKE'', ''LOAD DATA'', ''LOAD XML'',
      ''INSTALL PLUGIN'', ''UNINSTALL PLUGIN'', ''COPY'', ''MERGE'', ''UPSERT'']"

definition mutating_pattern :: "string list \<Rightarrow> regex" where
  \<comment> \<open>\<open>(?i)\b(k1|k2|...)\b\<close> over the escaped keywords, in the order \<open>ks\<close> in which
      the set is iterated\<close>
  "mutating_pattern ks = seqs [Wordb, alts (map kw ks), Wordb]"

definition MUTATING_PATTERN :: regex where
  "MUTATING_PATTERN = mutating_pattern MUTATING_KEYWORDS"

definition DDL_REGEX :: regex where
  "DDL_REGEX =
     seqs [Bol, ws0,
       alts [
         seqs [kw ''CREATE'', ws1,
               alts (map kw [''TABLE'', ''VIEW'', ''INDEX'', ''TRIGGER'', ''PROCEDURE'',
                             ''FUNCTION'', ''EVENT'', ''SCHEMA'', ''DATABASE'', ''ROLE'', ''USER''])],
         seqs [kw ''DROP'', ws1,
               alts (map kw [''TABLE'', ''VIEW'', ''INDEX'', ''TRIGGER'', ''PROCEDURE'',
                             ''FUNCTION'', ''EVENT'', ''SCHEMA'', ''DATABASE'', ''ROLE'', ''USER''])],
         seqs [kw ''ALTER'', ws1,
               alts (map kw [''TABLE'', ''VIEW'', ''TRIGGER'', ''PROCEDURE'',
                             ''FUNCTION'', ''EVENT'', ''SCHEMA'', ''DATABASE'', ''ROLE'', ''USER''])],
         seqs [kw ''RENAME'', ws1, kw ''TABLE''],
         kw ''TRUNCATE''],
       Wordb]"

definition PERMISSION_REGEX :: regex where
  "PERMISSION_REGEX =
     seqs [Bol, ws0,
       alts [
         seqs [kw ''GRANT'', Opt (seqs [ws1, kw ''ROLE''])],
         seqs [kw ''REVOKE'', Opt (seqs [ws1, kw ''ROLE''])],
         seqs [kw ''CREATE'', ws1, alts [kw ''USER'', kw ''ROLE'']],
         seqs [kw ''DROP'', ws1, alts [kw ''USER'', kw ''ROLE'']],
         seqs [kw ''SET'', ws1, kw ''DEFAULT'', ws1, kw ''ROLE''],
         seqs [kw ''SET'', ws1, kw ''PASSWORD''],
         seqs [kw ''ALTER'', ws1, kw ''USER''],
         seqs [kw ''RENAME'', ws1, kw ''USER'']],
       Wordb]"

definition SYSTEM_REGEX :: regex where
  "SYSTEM_REGEX =
     seqs [Bol, ws0,
       alts [
         seqs [kw ''SET'', ws1, alts [kw ''GLOBAL'', kw ''PERSIST'', kw ''SESSION'']],
         seqs [kw ''RESET'', ws1, alts [kw ''PERSIST'', kw ''MASTER'', kw ''SLAVE'']],
         seqs [kw ''FLUSH'', ws1,
               Opt (alts [kw ''PRIVILEGES'', kw ''HOSTS'', kw ''LOGS'', kw ''STATUS'', kw ''TABLES''])],
         seqs [kw ''INSTALL'', ws1, kw ''PLUGIN''],
         seqs [kw ''UNINSTALL'', ws1, kw ''PLUGIN''],
         seqs [kw ''CHANGE'', ws1, kw ''MASTER'', ws1, kw ''TO''],
         seqs [kw ''START'', ws1, kw ''SLAVE''],
         seqs [kw ''STOP'', ws1, kw ''SLAVE''],
         seqs [kw ''SET'', ws1, kw ''GTID_PURGED''],
         seqs [kw ''PURGE'', ws1, kw ''BINARY'', ws1, kw ''LOGS''],
         seqs [kw ''LOAD'', ws1, kw ''DATA'', ws1, kw ''INFILE''],
         seqs [kw ''SELECT'', ws1, Star Dot, ws1, kw ''INTO'', ws1, kw ''OUTFILE''],
         seqs [kw ''USE'', ws1, Plus Word],
         seqs [kw ''SET'', ws1, kw ''autocommit''],
         seqs [kw ''COPY'', ws1, Star Dot, ws1, kw ''FROM''],
         seqs [kw ''COPY'', ws1, Star Dot, ws1, kw ''TO'']],
       Wordb]"

definition TRANSACTION_CONTROL_REGEX :: regex where
  "TRANSACTION_CONTROL_REGEX =
     seqs [Bol, ws0,
       alts [
         seqs [kw ''BEGIN'', Opt (seqs [ws1, kw ''TRANSACTION'']),
               Opt (seqs [ws1, kw ''READ'', ws1, kw ''ONLY''])],
         seqs [kw ''COMMIT'', Opt (seqs [ws1, kw ''TRANSACTION''])],
         seqs [kw ''ROLLBACK'', Opt (seqs [ws1, kw ''TRANSACTION''])],
         kw ''SAVEPOINT'',
         seqs [kw ''RELEASE'', ws1, kw ''SAVEPOINT''],
         seqs [kw ''START'', ws1, kw ''TRANSACTION'']],
       Wordb]"

definition not_trailing :: regex where
  \<comment> \<open>\<open>(?!($|\s*--|\s*/\*))\<close>\<close>
  "not_trailing = NegLook (alts [Eol, seqs [ws0, lit ''--''], seqs [ws0, lit ''/*'']])"

definition not_trailing_i :: regex where
  \<comment> \<open>the same look-ahead inside a pattern under \<open>(?i)\<close>\<close>
  "not_trailing_i = NegLook (alts [Eol, seqs [ws0, kw ''--''], seqs [ws0, kw ''/*'']])"

definition stacked :: regex where
  \<comment> \<open>\<open>;\s*(?!($|\s*--|\s*/\*))(?=\S)\<close>\<close>
  "stacked = seqs [lit '';'', ws0, not_trailing, Look (Chr NonSpace)]"

definition bs :: char where
  \<comment> \<open>the backslash of the pattern sources\<close>
  "bs = CHR 0x5C"

definition sq :: char where
  \<comment> \<open>the single quote of the pattern sources\<close>
  "sq = CHR 0x27"

text \<open>
  \<open>SUSPICIOUS_PATTERNS\<close> is a list of pattern sources, compiled at each call; an entry
  here is the source text (which the finding's message quotes) with its compiled form.
\<close>

definition SUSPICIOUS_PATTERNS :: "(string \<times> regex) list" where
  "SUSPICIOUS_PATTERNS =
     [ \<comment> \<open>comment injection\<close>
       (''(?i)'' @ sq # ''.*?--'',
        seqs [kw [sq], LazyStar Dot, kw ''--'']),
       \<comment> \<open>numeric tautology\<close>
       (''(?i)'' @ bs # ''bor'' @ bs # ''b'' @ bs # ''s+'' @ bs # ''d+'' @ bs # ''s*=''
          @ bs # ''s*'' @ bs # ''d+'',
        seqs [Wordb, kw ''or'', Wordb, ws1, Plus Digit, ws0, kw ''='', ws0, Plus Digit]),
       \<comment> \<open>string tautology\<close>
       (''(?i)'' @ bs # ''bor'' @ bs # ''b'' @ bs # ''s*'' @ sq # ''[^'' @ sq # '']+'' @ sq
          # bs # ''s*='' @ bs # ''s*'' @ sq # ''[^'' @ sq # '']+'' @ [sq],
        seqs [Wordb, kw ''or'', Wordb, ws0, kw [sq], Plus NotQuote, kw [sq], ws0, kw ''='',
              ws0, kw [sq], Plus NotQuote, kw [sq]]),
       \<comment> \<open>UNION SELECT\<close>
       (''(?i)'' @ bs # ''bunion'' @ bs # ''b.*'' @ bs # ''bselect'' @ bs # ''b'',
        seqs [Wordb, kw ''union'', Wordb, Star Dot, Wordb, kw ''select'', Wordb]),
       \<comment> \<open>DROP\<close>
       (''(?i)'' @ bs # ''bdrop'' @ bs # ''b'',
        seqs [Wordb, kw ''drop'', Wordb]),
       \<comment> \<open>TRUNCATE\<close>
       (''(?i)'' @ bs # ''btruncate'' @ bs # ''b'',
        seqs [Wordb, kw ''truncate'', Wordb]),
       \<comment> \<open>GRANT or REVOKE\<close>
       (''(?i)'' @ bs # ''bgrant'' @ bs # ''b|'' @ bs # ''brevoke'' @ bs # ''b'',
        alts [seqs [Wordb, kw ''grant'', Wordb], seqs [Wordb, kw ''revoke'', Wordb]]),
       \<comment> \<open>stacked queries, excluding semicolons followed by comments or whitespace\<close>
       ('';'' @ bs # ''s*(?!($|'' @ bs # ''s*--|'' @ bs # ''s*/'' @ bs # ''*))(?='' @ bs # ''S)'',
        stacked),
       \<comment> \<open>time-based injection\<close>
       (''(?i)'' @ bs # ''bsleep'' @ bs # ''s*'' @ bs # ''('',
        seqs [Wordb, kw ''sleep'', ws0, kw ''(''  ]),
       \<comment> \<open>PostgreSQL time-based injection\<close>
       (''(?i)'' @ bs # ''bpg_sleep'' @ bs # ''s*'' @ bs # ''('',
        seqs [Wordb, kw ''pg_sleep'', ws0, kw ''(''  ]),
       \<comment> \<open>file read\<close>
       (''(?i)'' @ bs # ''bload_file'' @ bs # ''s*'' @ bs # ''('',
        seqs [Wordb, kw ''load_file'', ws0, kw ''(''  ]),
       \<comment> \<open>file write\<close>
       (''(?i)'' @ bs # ''binto'' @ bs # ''s+outfile'' @ bs # ''b'',
        seqs [Wordb, kw ''into'', ws1, kw ''outfile'', Wordb]),
       \<comment> \<open>PostgreSQL COPY FROM\<close>
       (''(?i)'' @ bs # ''bcopy'' @ bs # ''s+.*'' @ bs # ''s+from'' @ bs # ''b'',
        seqs [Wordb, kw ''copy'', ws1, Star Dot, ws1, kw ''from'', Wordb]),
       \<comment> \<open>PostgreSQL COPY TO\<close>
       (''(?i)'' @ bs # ''bcopy'' @ bs # ''s+.*'' @ bs # ''s+to'' @ bs # ''b'',
        seqs [Wordb, kw ''copy'', ws1, Star Dot, ws1, kw ''to'', Wordb]),
       \<comment> \<open>transaction control followed by other statements\<close>
       (''(?i)'' @ bs # ''b(begin|commit|rollback)'' @ bs # ''b.*;'' @ bs # ''s*'' @ bs # ''w+'',
        seqs [Wordb, alts [kw ''begin'', kw ''commit'', kw ''rollback''], Wordb, Star Dot,
              kw '';'', ws0, Plus Word]) ]"

definition commit_bypass_pattern :: regex where
  \<comment> \<open>\<open>(?i)\bcommit\b.*?;\s*(?!($|\s*--|\s*/\*))\w+\<close>, compiled with \<open>DOTALL\<close>\<close>
  "commit_bypass_pattern =
     seqs [Wordb, kw ''commit'', Wordb, LazyStar DotAll, kw '';'', ws0, not_trailing_i, Plus Word]"

definition multiple_statements :: regex where
  \<comment> \<open>\<open>;\s*(?!($|\s*--|\s*/\*))(?=\S)\<close>\<close>
  "multiple_statements = stacked"

section \<open>The three entry points\<close>

definition detect_mutating_keywords :: "string \<Rightarrow> string list" where
  "detect_mutating_keywords sql =
     (let matched = [];
          matched = (if search DDL_REGEX sql then matched @ [''DDL''] else matched);
          matched = (if search PERMISSION_REGEX sql then matched @ [''PERMISSION''] else matched);
          matched = (if search SYSTEM_REGEX sql then matched @ [''SYSTEM''] else matched);
          matched = (if search TRANSACTION_CONTROL_REGEX sql
                     then matched @ [''TRANSACTION_CONTROL''] else matched);
          keyword_matches = findall MUTATING_PATTERN sql
      in if keyword_matches \<noteq> []
         then matched @ sorted_list_of_set (set (map upper keyword_matches))
         else matched)"

record issue =
  issue_type :: string
  issue_message :: string
  issue_severity :: string

fun scan_patterns :: "(string \<times> regex) list \<Rightarrow> string \<Rightarrow> issue list \<Rightarrow> issue list" where
  \<comment> \<open>the \<open>for\<close> loop of \<open>check_sql_injection_risk\<close>, left at the first match\<close>
  "scan_patterns [] sql issues = issues"
| "scan_patterns ((pattern, compiled) # rest) sql issues =
     (if search compiled sql
      then issues @ [\<lparr>issue_type = ''sql'',
                      issue_message = ''Suspicious pattern detected: '' @ pattern,
                      issue_severity = ''high''\<rparr>]
      else scan_patterns rest sql issues)"

definition check_sql_injection_risk :: "string \<Rightarrow> issue list" where
  "check_sql_injection_risk sql = scan_patterns SUSPICIOUS_PATTERNS sql []"

definition detect_transaction_bypass_attempt :: "string \<Rightarrow> bool" where
  "detect_transaction_bypass_attempt sql =
     (search commit_bypass_pattern sql \<or> length (findall multiple_statements sql) > 0)"

section \<open>Notions the properties are stated with\<close>

definition finding_of :: "string \<Rightarrow> issue" where
  \<comment> \<open>the finding reported for the pattern with the given source\<close>
  "finding_of pattern =
     \<lparr>issue_type = ''sql'',
      issue_message = ''Suspicious pattern detected: '' @ pattern,
      issue_severity = ''high''\<rparr>"

section \<open>Searching and scanning\<close>

lemma findall_from_nonempty: "findall_from r p xs \<noteq> [] \<longleftrightarrow> search_from r p xs"
  by (induction r p xs rule: findall_from.induct) (auto split: list.splits)

lemma findall_nonempty: "findall r sql \<noteq> [] \<longleftrightarrow> search r sql"
  by (simp add: findall_def search_def findall_from_nonempty)

lemma scan_patterns_find:
  "scan_patterns ps sql issues =
     issues @ (case find (\<lambda>pc. search (snd pc) sql) ps of
                 None \<Rightarrow> []
               | Some pc \<Rightarrow> [finding_of (fst pc)])"
  by (induction ps sql issues rule: scan_patterns.induct) (auto simp: finding_of_def)

lemma check_find:
  "check_sql_injection_risk sql =
     (case find (\<lambda>pc. search (snd pc) sql) SUSPICIOUS_PATTERNS of
        None \<Rightarrow> []
      | Some pc \<Rightarrow> [finding_of (fst pc)])"
  by (simp add: check_sql_injection_risk_def scan_patterns_find)

lemma suspicious_patterns_length: "length SUSPICIOUS_PATTERNS = 15"
  by (simp add: SUSPICIOUS_PATTERNS_def)

lemma suspicious_patterns_distinct: "distinct (map fst SUSPICIOUS_PATTERNS)"
  by code_simp

section \<open>The injection scanner reports the first pattern that matches\<close>

text \<open>
  Claim C1. For every \<open>sql\<close>, \<open>check_sql_injection_risk sql\<close> has length 0 or 1. It is
  empty when none of the 15 patterns matches; when a pattern matches, it is the single
  finding of the earliest pattern of the list that matches, with type \<open>sql\<close>, severity
  \<open>high\<close> and a message that quotes that pattern's source. The 15 sources are pairwise
  distinct and the finding determines the source, so the message identifies the rule.
\<close>

theorem check_sql_injection_risk_first_match:
  "length (check_sql_injection_risk sql) \<le> 1
   \<and> ((\<forall>pc \<in> set SUSPICIOUS_PATTERNS. \<not> search (snd pc) sql)
        \<longrightarrow> check_sql_injection_risk sql = [])
   \<and> (\<forall>i < length SUSPICIOUS_PATTERNS.
         search (snd (SUSPICIOUS_PATTERNS ! i)) sql
         \<and> (\<forall>j < i. \<not> search (snd (SUSPICIOUS_PATTERNS ! j)) sql)
         \<longrightarrow> check_sql_injection_risk sql = [finding_of (fst (SUSPICIOUS_PATTERNS ! i))])
   \<and> (\<forall>f \<in> set (check_sql_injection_risk sql).
         issue_type f = ''sql'' \<and> issue_severity f = ''high'')
   \<and> length SUSPICIOUS_PATTERNS = 15
   \<and> distinct (map fst SUSPICIOUS_PATTERNS)
   \<and> inj finding_of"
proof -
  let ?P = "\<lambda>pc. search (snd pc) sql"
  have b: "length (check_sql_injection_risk sql) \<le> 1"
    unfolding check_find by (simp split: option.splits)
  have c: "(\<forall>pc \<in> set SUSPICIOUS_PATTERNS. \<not> ?P pc) \<longrightarrow> check_sql_injection_risk sql = []"
  proof
    assume "\<forall>pc \<in> set SUSPICIOUS_PATTERNS. \<not> ?P pc"
    then have "find ?P SUSPICIOUS_PATTERNS = None"
      by (force simp: find_None_iff)
    then show "check_sql_injection_risk sql = []"
      by (simp add: check_find)
  qed
  have e: "check_sql_injection_risk sql = [finding_of (fst (SUSPICIOUS_PATTERNS ! i))]"
    if "i < length SUSPICIOUS_PATTERNS" "?P (SUSPICIOUS_PATTERNS ! i)"
       "\<forall>j < i. \<not> ?P (SUSPICIOUS_PATTERNS ! j)" for i
  proof -
    from that have "find ?P SUSPICIOUS_PATTERNS = Some (SUSPICIOUS_PATTERNS ! i)"
      unfolding find_Some_iff by blast
    then show ?thesis by (simp add: check_find)
  qed
  have f: "\<forall>f \<in> set (check_sql_injection_risk sql).
             issue_type f = ''sql'' \<and> issue_severity f = ''high''"
    unfolding check_find by (auto simp: finding_of_def split: option.splits)
  have d: "inj finding_of"
    by (rule injI) (simp add: finding_of_def)
  show ?thesis
    using b c d e f suspicious_patterns_length suspicious_patterns_distinct by blast
qed

theorem check_sql_injection_risk_first_match_witness:
  "check_sql_injection_risk ''x OR 1=1'' = [finding_of (fst (SUSPICIOUS_PATTERNS ! 1))]"
proof -
  have h1: "search (snd (SUSPICIOUS_PATTERNS ! 1)) ''x OR 1=1''" by code_simp
  have h0: "\<not> search (snd (SUSPICIOUS_PATTERNS ! 0)) ''x OR 1=1''" by code_simp
  have "\<forall>j < (1::nat). \<not> search (snd (SUSPICIOUS_PATTERNS ! j)) ''x OR 1=1''"
    using h0 by simp
  with h1 check_sql_injection_risk_first_match [of "''x OR 1=1''"] show ?thesis
    by (simp add: suspicious_patterns_length)
qed

section \<open>A statement with a second statement that drops a table\<close>

text \<open>
  Claim C2, as stated: on \<open>SELECT * FROM t; DROP TABLE t;\<close> the scanner returns one finding,
  the one of the stacked-statement rule (the eighth pattern), that rule coming before the
  bare \<open>DROP\<close> rule. The list has the \<open>DROP\<close> pattern fifth and the stacked-statement
  pattern eighth, and the finding is not the one of the eighth pattern.
\<close>

theorem stacked_rule_on_drop_counterexample:
  "check_sql_injection_risk ''SELECT * FROM t; DROP TABLE t;''
     \<noteq> [finding_of (fst (SUSPICIOUS_PATTERNS ! 7))]"
  by code_simp

text \<open>
  Claim C2, amended: on \<open>SELECT * FROM t; DROP TABLE t;\<close> the scanner returns exactly one
  finding, the one of the bare \<open>DROP\<close> rule (the fifth pattern), which comes before the
  stacked-statement rule (the eighth pattern) in the list; the stacked-statement pattern
  matches the input too.
\<close>

theorem drop_rule_before_stacked_rule:
  "check_sql_injection_risk ''SELECT * FROM t; DROP TABLE t;''
     = [finding_of (fst (SUSPICIOUS_PATTERNS ! 4))]
   \<and> fst (SUSPICIOUS_PATTERNS ! 4) = ''(?i)'' @ bs # ''bdrop'' @ bs # ''b''
   \<and> snd (SUSPICIOUS_PATTERNS ! 7) = stacked
   \<and> search stacked ''SELECT * FROM t; DROP TABLE t;''"
proof -
  have "check_sql_injection_risk ''SELECT * FROM t; DROP TABLE t;''
          = [finding_of (fst (SUSPICIOUS_PATTERNS ! 4))]"
    by code_simp
  moreover have "fst (SUSPICIOUS_PATTERNS ! 4) = ''(?i)'' @ bs # ''bdrop'' @ bs # ''b''"
    by (simp add: SUSPICIOUS_PATTERNS_def)
  moreover have "snd (SUSPICIOUS_PATTERNS ! 7) = stacked"
    by (simp add: SUSPICIOUS_PATTERNS_def)
  moreover have "search stacked ''SELECT * FROM t; DROP TABLE t;''"
    by code_simp
  ultimately show ?thesis by blast
qed

section \<open>UNION and SELECT on different lines\<close>

text \<open>
  Claim C5 says that a string in which the word \<open>UNION\<close> is followed later by the word
  \<open>SELECT\<close>, also across a newline, and which matches none of the first three patterns,
  gets the finding of the \<open>UNION ... SELECT\<close> rule. The dot of that pattern does not match
  a newline: with a space between the two words the scanner reports the rule, with a
  newline between them it reports nothing.
\<close>

theorem union_newline_select_not_reported:
  "check_sql_injection_risk (''UNION'' @ [CHR 0x0A] @ ''SELECT 1'') = []
   \<and> check_sql_injection_risk ''UNION SELECT 1'' = [finding_of (fst (SUSPICIOUS_PATTERNS ! 3))]"
  by code_simp

section \<open>FLUSH with nothing after it\<close>

text \<open>
  Claim C6 says that every statement beginning with \<open>FLUSH\<close> is classified \<open>SYSTEM\<close>, the
  bare statement \<open>FLUSH\<close> included. The pattern asks for white space after \<open>FLUSH\<close> and
  then for a word boundary: \<open>FLUSH\<close> alone gets no label, \<open>FLUSH x\<close> gets \<open>SYSTEM\<close>.
\<close>

theorem bare_flush_not_classified:
  "detect_mutating_keywords ''FLUSH'' = []
   \<and> detect_mutating_keywords ''FLUSH x'' = [''SYSTEM'']"
  by code_simp

section \<open>The bypass detector flags what the stacked-statement rule flags\<close>

text \<open>
  Claim C9. If the stacked-statement pattern of the scanner (its eighth pattern) matches
  somewhere in \<open>sql\<close>, then \<open>detect_transaction_bypass_attempt sql\<close> is true: the second
  condition of the detector uses the same pattern.
\<close>

theorem stacked_rule_implies_bypass:
  "search (snd (SUSPICIOUS_PATTERNS ! 7)) sql \<Longrightarrow> detect_transaction_bypass_attempt sql"
proof -
  assume "search (snd (SUSPICIOUS_PATTERNS ! 7)) sql"
  moreover have "snd (SUSPICIOUS_PATTERNS ! 7) = multiple_statements"
    by (simp add: SUSPICIOUS_PATTERNS_def multiple_statements_def)
  ultimately have "findall multiple_statements sql \<noteq> []"
    by (simp add: findall_nonempty)
  then show ?thesis
    by (simp add: detect_transaction_bypass_attempt_def)
qed

theorem stacked_rule_implies_bypass_witness:
  "search (snd (SUSPICIOUS_PATTERNS ! 7)) ''a; b'' \<and> detect_transaction_bypass_attempt ''a; b''"
proof -
  have h: "search (snd (SUSPICIOUS_PATTERNS ! 7)) ''a; b''" by code_simp
  from h stacked_rule_implies_bypass [OF h] show ?thesis by simp
qed

section \<open>The empty statement\<close>

text \<open>
  Claim C10. On the empty string each entry point returns its no-finding value:
  \<open>detect_mutating_keywords\<close> and \<open>check_sql_injection_risk\<close> return the empty list and
  \<open>detect_transaction_bypass_attempt\<close> returns false.
\<close>

theorem empty_statement_no_finding:
  "detect_mutating_keywords [] = []
   \<and> check_sql_injection_risk [] = []
   \<and> detect_transaction_bypass_attempt [] = False"
  by code_simp

end
